theory Spec2Isabelle
  imports Main
begin

section \<open>Python values\<close>

text \<open>
  The exceptions that the unguarded subscripts, slices and attribute accesses of
  \<^verbatim>\<open>server.py\<close> and \<^verbatim>\<open>api_helpers.py\<close> can raise on a parsed JSON value.
\<close>

datatype pyexc = KeyError string | TypeError | AttributeError

text \<open>
  A value as \<^verbatim>\<open>json.loads\<close> builds it. A \<^verbatim>\<open>dict\<close> is an association list in insertion
  order, read with \<open>map_of\<close>. A \<^verbatim>\<open>float\<close> is carried by the text that \<^verbatim>\<open>str\<close> prints for
  it, which is all the program ever does with one besides testing it against zero.
\<close>

datatype pyval =
    PNone
  | PBool bool
  | PInt int
  | PFloat string
  | PStr string
  | PList "pyval list"
  | PDict "(string \<times> pyval) list"

text \<open>Python's truth value testing (\<^verbatim>\<open>if not data\<close>).\<close>

fun truthy :: "pyval \<Rightarrow> bool" where
  "truthy PNone = False"
| "truthy (PBool b) = b"
| "truthy (PInt i) = (i \<noteq> 0)"
| "truthy (PFloat s) = (s \<noteq> ''0.0'' \<and> s \<noteq> ''-0.0'')"
| "truthy (PStr s) = (s \<noteq> [])"
| "truthy (PList xs) = (xs \<noteq> [])"
| "truthy (PDict kvs) = (kvs \<noteq> [])"

text \<open>\<^verbatim>\<open>str\<close> of an integer: decimal digits, with a minus sign when negative.\<close>

definition digit_char :: "nat \<Rightarrow> char" where
  "digit_char d = char_of (48 + d)"

fun str_nat :: "nat \<Rightarrow> string" where
  "str_nat n = (if n < 10 then [digit_char n] else str_nat (n div 10) @ [digit_char (n mod 10)])"

declare str_nat.simps [simp del]

definition str_int :: "int \<Rightarrow> string" where
  "str_int i = (if i < 0 then CHR ''-'' # str_nat (nat (- i)) else str_nat (nat i))"

text \<open>
  \<^verbatim>\<open>str(v)\<close>, as an f-string field applies it. The text of a list or of a dict is
  Python's \<^verbatim>\<open>repr\<close> of it, with its quoting and escaping of the strings inside; that
  builtin is the parameter \<open>py_repr\<close> of every function that formats a parsed value.
\<close>

fun py_str :: "(pyval \<Rightarrow> string) \<Rightarrow> pyval \<Rightarrow> string" where
  "py_str py_repr PNone = ''None''"
| "py_str py_repr (PBool b) = (if b then ''True'' else ''False'')"
| "py_str py_repr (PInt i) = str_int i"
| "py_str py_repr (PFloat s) = s"
| "py_str py_repr (PStr s) = s"
| "py_str py_repr (PList xs) = py_repr (PList xs)"
| "py_str py_repr (PDict kvs) = py_repr (PDict kvs)"

text \<open>\<^verbatim>\<open>sep.join(parts)\<close>.\<close>

fun join :: "string \<Rightarrow> string list \<Rightarrow> string" where
  "join sep [] = []"
| "join sep [p] = p"
| "join sep (p # q # ps) = p @ sep @ join sep (q # ps)"

section \<open>The external call adapter (\<^verbatim>\<open>api_helpers.py\<close>)\<close>

text \<open>
  What \<^verbatim>\<open>httpx\<close> can raise inside the \<^verbatim>\<open>try\<close> block of \<^verbatim>\<open>make_nws_request\<close>, one
  constructor per \<^verbatim>\<open>except\<close> clause: \<^verbatim>\<open>RequestError\<close> covers transport failures and
  timeouts, \<^verbatim>\<open>OtherException\<close> is the final \<^verbatim>\<open>except Exception\<close>.
\<close>

datatype http_exc = HTTPStatusError | RequestError | JSONDecodeError | OtherException

text \<open>
  A response: its status code and what \<^verbatim>\<open>response.json()\<close> gives, the parsed body or the
  exception raised by the parser.
\<close>

record response =
  status_code :: int
  json_body :: "http_exc + pyval"

text \<open>The network: what \<^verbatim>\<open>client.get(url, ...)\<close> does for each URL.\<close>

type_synonym network = "string \<Rightarrow> http_exc + response"

text \<open>\<^verbatim>\<open>response.raise_for_status()\<close>: raises unless the status is 2xx.\<close>

definition raise_for_status :: "response \<Rightarrow> http_exc + unit" where
  "raise_for_status resp =
     (if 200 \<le> status_code resp \<and> status_code resp \<le> 299 then Inr () else Inl HTTPStatusError)"

text \<open>\<^verbatim>\<open>len\<close> of a dict: the number of its keys.\<close>

definition dict_len :: "(string \<times> pyval) list \<Rightarrow> nat" where
  "dict_len kvs = length (remdups (map fst kvs))"

text \<open>The summary entry of one value in \<^verbatim>\<open>truncate_json_summary\<close>.\<close>

fun summary_entry :: "pyval \<Rightarrow> pyval" where
  "summary_entry (PDict kvs) = PStr (''{...} ('' @ str_nat (dict_len kvs) @ '' keys)'')"
| "summary_entry (PList xs) = PStr (''[...] ('' @ str_nat (length xs) @ '' items)'')"
| "summary_entry (PStr s) = (if length s > 50 then PStr (take 50 s @ ''...'') else PStr s)"
| "summary_entry v = v"

text \<open>
  \<^verbatim>\<open>truncate_json_summary\<close>. The body of its \<^verbatim>\<open>try\<close> raises \<^verbatim>\<open>AttributeError\<close> at
  \<^verbatim>\<open>data.items()\<close> when the data is not a dict; the \<^verbatim>\<open>except\<close> turns that into the
  placeholder.
\<close>

definition summary_body :: "(pyval \<Rightarrow> string) \<Rightarrow> pyval \<Rightarrow> pyexc + string" where
  "summary_body py_repr data =
     (case data of
        PDict kvs \<Rightarrow> Inr (py_repr (PDict (map (\<lambda>(key, val). (key, summary_entry val)) kvs)))
      | _ \<Rightarrow> Inl AttributeError)"

definition truncate_json_summary :: "(pyval \<Rightarrow> string) \<Rightarrow> pyval \<Rightarrow> string" where
  "truncate_json_summary py_repr data =
     (if \<not> truthy data then ''empty data''
      else (case summary_body py_repr data of
              Inr s \<Rightarrow> s
            | Inl e \<Rightarrow> ''data summary unavailable''))"

text \<open>
  The \<^verbatim>\<open>try\<close> block of \<^verbatim>\<open>make_nws_request\<close>: the GET, the status check, the parse and
  the summary computed for the debug log line.
\<close>

definition make_nws_request_try :: "(pyval \<Rightarrow> string) \<Rightarrow> network \<Rightarrow> string \<Rightarrow> http_exc + pyval" where
  "make_nws_request_try py_repr net url =
     (case net url of
        Inl e \<Rightarrow> Inl e
      | Inr resp \<Rightarrow>
          (case raise_for_status resp of
             Inl e \<Rightarrow> Inl e
           | Inr u \<Rightarrow>
               (case json_body resp of
                  Inl e \<Rightarrow> Inl e
                | Inr data \<Rightarrow> (let logged = truncate_json_summary py_repr data in Inr data))))"

text \<open>
  \<^verbatim>\<open>make_nws_request\<close>: every \<^verbatim>\<open>except\<close> clause returns \<^verbatim>\<open>None\<close>, which is \<open>PNone\<close>, the
  same value a body \<^verbatim>\<open>null\<close> parses to.
\<close>

definition make_nws_request :: "(pyval \<Rightarrow> string) \<Rightarrow> network \<Rightarrow> string \<Rightarrow> pyval" where
  "make_nws_request py_repr net url =
     (case make_nws_request_try py_repr net url of
        Inr data \<Rightarrow> data
      | Inl HTTPStatusError \<Rightarrow> PNone
      | Inl RequestError \<Rightarrow> PNone
      | Inl JSONDecodeError \<Rightarrow> PNone
      | Inl OtherException \<Rightarrow> PNone)"

text \<open>
  \<^verbatim>\<open>make_nws_request\<close> called on a value that need not be a string, as \<^verbatim>\<open>get_forecast\<close>
  does with what it reads from the points payload: for anything but a \<^verbatim>\<open>str\<close>,
  \<^verbatim>\<open>client.get\<close> raises \<^verbatim>\<open>TypeError\<close> inside the \<^verbatim>\<open>try\<close>, and the last \<^verbatim>\<open>except\<close>
  clause returns \<^verbatim>\<open>None\<close>.
\<close>

definition make_nws_request_val :: "(pyval \<Rightarrow> string) \<Rightarrow> network \<Rightarrow> pyval \<Rightarrow> pyval" where
  "make_nws_request_val py_repr net url =
     (case url of PStr u \<Rightarrow> make_nws_request py_repr net u | _ \<Rightarrow> PNone)"

section \<open>Strings and \<^verbatim>\<open>textwrap.dedent\<close>\<close>

text \<open>\<^verbatim>\<open>s.startswith(p)\<close> and \<^verbatim>\<open>p in s\<close> on strings.\<close>

fun startswith :: "string \<Rightarrow> string \<Rightarrow> bool" where
  "startswith s [] = True"
| "startswith [] (p # ps) = False"
| "startswith (c # cs) (p # ps) = (c = p \<and> startswith cs ps)"

fun str_contains :: "string \<Rightarrow> string \<Rightarrow> bool" where
  "str_contains p [] = (p = [])"
| "str_contains p (c # cs) = (startswith (c # cs) p \<or> str_contains p cs)"

definition newline :: char where
  "newline = CHR 0x0A"

text \<open>\<^verbatim>\<open>text.split('\n')\<close>: the lines of a text, one more than it has newlines.\<close>

fun split_lines :: "string \<Rightarrow> string list" where
  "split_lines [] = [[]]"
| "split_lines (c # cs) =
     (if c = newline then [] # split_lines cs
      else (case split_lines cs of l # ls \<Rightarrow> (c # l) # ls | [] \<Rightarrow> [[c]]))"

definition join_lines :: "string list \<Rightarrow> string" where
  "join_lines ls = join [newline] ls"

text \<open>
  \<^verbatim>\<open>textwrap.dedent\<close> of the standard library (its regular-expression version, as in
  CPython up to 3.13), line by line. A space or a tab is blank; a line of blanks only is
  emptied; the margin is the longest common prefix of the indentations of the lines that
  have a non-blank character; the margin is removed from the start of every line that
  starts with it.
\<close>

definition blank :: "char \<Rightarrow> bool" where
  "blank c = (c = CHR '' '' \<or> c = CHR 0x09)"

definition normalise_line :: "string \<Rightarrow> string" where
  "normalise_line l = (if list_all blank l then [] else l)"

definition indents :: "string list \<Rightarrow> string list" where
  "indents ls = map (takeWhile blank) (filter (\<lambda>l. dropWhile blank l \<noteq> []) ls)"

fun common_prefix :: "string \<Rightarrow> string \<Rightarrow> string" where
  "common_prefix (x # xs) (y # ys) = (if x = y then x # common_prefix xs ys else [])"
| "common_prefix xs ys = []"

definition margin_step :: "string option \<Rightarrow> string \<Rightarrow> string option" where
  "margin_step margin indent =
     (case margin of
        None \<Rightarrow> Some indent
      | Some m \<Rightarrow>
          (if startswith indent m then Some m
           else if startswith m indent then Some indent
           else Some (common_prefix m indent)))"

definition strip_margin :: "string \<Rightarrow> string \<Rightarrow> string" where
  "strip_margin m l = (if startswith l m then drop (length m) l else l)"

definition dedent :: "string \<Rightarrow> string" where
  "dedent text =
     (let ls = map normalise_line (split_lines text) in
      case foldl margin_step None (indents ls) of
        None \<Rightarrow> join_lines ls
      | Some m \<Rightarrow> (if m = [] then join_lines ls else join_lines (map (strip_margin m) ls)))"

section \<open>Operations on parsed values\<close>

text \<open>
  \<^verbatim>\<open>v[key]\<close> with a string key: a dict looks the key up and raises \<^verbatim>\<open>KeyError\<close> when
  it is missing; every other value raises \<^verbatim>\<open>TypeError\<close>.
\<close>

fun subscript :: "pyval \<Rightarrow> string \<Rightarrow> pyexc + pyval" where
  "subscript (PDict kvs) key = (case map_of kvs key of Some v \<Rightarrow> Inr v | None \<Rightarrow> Inl (KeyError key))"
| "subscript v key = Inl TypeError"

text \<open>
  \<^verbatim>\<open>v.get(key, default)\<close>: only a dict has the method; every other value raises
  \<^verbatim>\<open>AttributeError\<close>.
\<close>

fun get_method :: "pyval \<Rightarrow> string \<Rightarrow> pyval \<Rightarrow> pyexc + pyval" where
  "get_method (PDict kvs) key dflt = (case map_of kvs key of Some v \<Rightarrow> Inr v | None \<Rightarrow> Inr dflt)"
| "get_method v key dflt = Inl AttributeError"

text \<open>
  \<^verbatim>\<open>key in v\<close> with a string key: a key of a dict, an element of a list, a substring of
  a string; \<^verbatim>\<open>TypeError\<close> on a value that is not a container.
\<close>

fun contains :: "pyval \<Rightarrow> string \<Rightarrow> pyexc + bool" where
  "contains (PDict kvs) key = Inr (key \<in> fst ` set kvs)"
| "contains (PList xs) key = Inr (PStr key \<in> set xs)"
| "contains (PStr s) key = Inr (str_contains key s)"
| "contains v key = Inl TypeError"

text \<open>
  The elements a \<^verbatim>\<open>for\<close> loop over \<^verbatim>\<open>v\<close> visits: the items of a list, the keys of a
  dict, the characters of a string; \<^verbatim>\<open>TypeError\<close> otherwise.
\<close>

fun iterate :: "pyval \<Rightarrow> pyexc + pyval list" where
  "iterate (PList xs) = Inr xs"
| "iterate (PDict kvs) = Inr (map (\<lambda>k. PStr k) (remdups (map fst kvs)))"
| "iterate (PStr s) = Inr (map (\<lambda>c. PStr [c]) s)"
| "iterate v = Inl TypeError"

text \<open>\<^verbatim>\<open>len(v)\<close>.\<close>

fun py_len :: "pyval \<Rightarrow> pyexc + nat" where
  "py_len (PList xs) = Inr (length xs)"
| "py_len (PDict kvs) = Inr (dict_len kvs)"
| "py_len (PStr s) = Inr (length s)"
| "py_len v = Inl TypeError"

text \<open>
  \<^verbatim>\<open>v[:n]\<close>: the first \<open>n\<close> items of a list, the first \<open>n\<close> characters of a string. A
  dict cannot be sliced (CPython up to 3.11 raises \<^verbatim>\<open>TypeError\<close> for the unhashable
  slice, later versions a \<^verbatim>\<open>KeyError\<close>); no other value can be subscripted.
\<close>

fun slice_to :: "nat \<Rightarrow> pyval \<Rightarrow> pyexc + pyval" where
  "slice_to n (PList xs) = Inr (PList (take n xs))"
| "slice_to n (PStr s) = Inr (PStr (take n s))"
| "slice_to n v = Inl TypeError"

text \<open>Sequencing of steps that can raise, and a loop body run over a list in order.\<close>

definition and_then :: "pyexc + 'a \<Rightarrow> ('a \<Rightarrow> pyexc + 'b) \<Rightarrow> pyexc + 'b" where
  "and_then r f = (case r of Inl e \<Rightarrow> Inl e | Inr v \<Rightarrow> f v)"

fun for_each :: "('a \<Rightarrow> pyexc + 'b) \<Rightarrow> 'a list \<Rightarrow> pyexc + 'b list" where
  "for_each f [] = Inr []"
| "for_each f (x # xs) =
     (case f x of
        Inl e \<Rightarrow> Inl e
      | Inr y \<Rightarrow> (case for_each f xs of Inl e \<Rightarrow> Inl e | Inr ys \<Rightarrow> Inr (y # ys)))"

section \<open>The weather tools (\<^verbatim>\<open>api_helpers.py\<close>, \<^verbatim>\<open>server.py\<close>)\<close>

text \<open>
  \<^verbatim>\<open>format_alert\<close>: the subscript \<^verbatim>\<open>feature["properties"]\<close> is unguarded; the five
  fields are read with \<^verbatim>\<open>props.get\<close> and a default.
\<close>

definition format_alert :: "(pyval \<Rightarrow> string) \<Rightarrow> pyval \<Rightarrow> pyexc + string" where
  "format_alert py_repr feature =
     and_then (subscript feature ''properties'') (\<lambda>props.
     and_then (get_method props ''event'' (PStr ''Unknown'')) (\<lambda>event.
     and_then (get_method props ''areaDesc'' (PStr ''Unknown'')) (\<lambda>area.
     and_then (get_method props ''severity'' (PStr ''Unknown'')) (\<lambda>severity.
     and_then (get_method props ''description'' (PStr ''No description available'')) (\<lambda>description.
     and_then (get_method props ''instruction'' (PStr ''No specific instructions provided''))
       (\<lambda>instruction.
     Inr (dedent (join_lines
       [[],
        ''        Event: '' @ py_str py_repr event,
        ''        Area: '' @ py_str py_repr area,
        ''        Severity: '' @ py_str py_repr severity,
        ''        Description: '' @ py_str py_repr description,
        ''        Instructions: '' @ py_str py_repr instruction,
        ''        '']))))))))"

definition NWS_API_BASE :: string where
  "NWS_API_BASE = ''https://api.weather.gov''"

definition separator :: string where
  "separator = [newline] @ ''---'' @ [newline]"

text \<open>
  \<^verbatim>\<open>get_alerts\<close>. The test \<^verbatim>\<open>not data or "features" not in data\<close> evaluates the
  membership only when the data is truthy.
\<close>

definition get_alerts :: "(pyval \<Rightarrow> string) \<Rightarrow> network \<Rightarrow> string \<Rightarrow> pyexc + string" where
  "get_alerts py_repr net state =
     (let url = NWS_API_BASE @ ''/alerts/active/area/'' @ state;
          data = make_nws_request py_repr net url
      in if \<not> truthy data then Inr ''Unable to fetch alerts or no alerts found.''
         else
           and_then (contains data ''features'') (\<lambda>present.
           if \<not> present then Inr ''Unable to fetch alerts or no alerts found.''
           else
             and_then (subscript data ''features'') (\<lambda>features.
             if \<not> truthy features then Inr ''No active alerts for this state.''
             else
               and_then (py_len features) (\<lambda>n.
               and_then (iterate features) (\<lambda>fs.
               and_then (for_each (format_alert py_repr) fs) (\<lambda>alerts.
               Inr (join separator alerts)))))))"

text \<open>
  One iteration of the loop of \<^verbatim>\<open>get_forecast\<close>: the debug line reads
  \<^verbatim>\<open>period['name']\<close> first, then the template reads its six fields in order. The degree
  sign of the source is the two characters U+00C2 U+00B0.
\<close>

definition format_period :: "(pyval \<Rightarrow> string) \<Rightarrow> pyval \<Rightarrow> pyexc + string" where
  "format_period py_repr period =
     and_then (subscript period ''name'') (\<lambda>logged.
     and_then (subscript period ''name'') (\<lambda>name.
     and_then (subscript period ''temperature'') (\<lambda>temperature.
     and_then (subscript period ''temperatureUnit'') (\<lambda>unit.
     and_then (subscript period ''windSpeed'') (\<lambda>speed.
     and_then (subscript period ''windDirection'') (\<lambda>direction.
     and_then (subscript period ''detailedForecast'') (\<lambda>detailed.
     Inr (dedent (join_lines
       [[],
        ''            '' @ py_str py_repr name @ '':'',
        ''            Temperature: '' @ py_str py_repr temperature @ [CHR 0xC2, CHR 0xB0]
           @ py_str py_repr unit,
        ''            Wind: '' @ py_str py_repr speed @ '' '' @ py_str py_repr direction,
        ''            Forecast: '' @ py_str py_repr detailed,
        ''            ''])))))))))"

text \<open>
  \<^verbatim>\<open>get_forecast\<close>. The coordinates enter only through the text that the f-string
  prints for the two floats, so they are given as that text.
\<close>

definition get_forecast :: "(pyval \<Rightarrow> string) \<Rightarrow> network \<Rightarrow> string \<Rightarrow> string \<Rightarrow> pyexc + string" where
  "get_forecast py_repr net latitude longitude =
     (let points_url = NWS_API_BASE @ ''/points/'' @ latitude @ '','' @ longitude;
          points_data = make_nws_request py_repr net points_url
      in if \<not> truthy points_data then Inr ''Unable to fetch forecast data for this location.''
         else
           and_then (subscript points_data ''properties'') (\<lambda>props.
           and_then (subscript props ''forecast'') (\<lambda>forecast_url.
           let forecast_data = make_nws_request_val py_repr net forecast_url
           in if \<not> truthy forecast_data then Inr ''Unable to fetch detailed forecast.''
              else
                and_then (subscript forecast_data ''properties'') (\<lambda>fprops.
                and_then (subscript fprops ''periods'') (\<lambda>periods.
                and_then (py_len periods) (\<lambda>n.
                and_then (slice_to 5 periods) (\<lambda>shown.
                and_then (iterate shown) (\<lambda>ps.
                and_then (for_each (format_period py_repr) ps) (\<lambda>forecasts.
                Inr (join separator forecasts))))))))))"

section \<open>The data access adapter (\<^verbatim>\<open>db_helpers.py\<close>)\<close>

text \<open>
  A row of the table \<^verbatim>\<open>customers(id, name, email, age, prefer_package)\<close>; the two
  optional columns hold \<open>None\<close> for SQL NULL.
\<close>

record customer =
  cust_id :: int
  cust_name :: string
  cust_email :: string
  cust_age :: "int option"
  cust_pkg :: "int option"

text \<open>
  A column value as \<^verbatim>\<open>asyncpg\<close> hands it to Python, and \<^verbatim>\<open>dict(row)\<close>: one entry for
  every column of the row, a NULL column as the value \<^verbatim>\<open>None\<close>.
\<close>

datatype colval = Null | IntVal int | TextVal string

type_synonym pydict = "(string \<times> colval) list"

definition opt_int :: "int option \<Rightarrow> colval" where
  "opt_int v = (case v of None \<Rightarrow> Null | Some i \<Rightarrow> IntVal i)"

definition row_dict :: "customer \<Rightarrow> pydict" where
  "row_dict r =
     [(''id'', IntVal (cust_id r)),
      (''name'', TextVal (cust_name r)),
      (''email'', TextVal (cust_email r)),
      (''age'', opt_int (cust_age r)),
      (''prefer_package'', opt_int (cust_pkg r))]"

text \<open>
  The database server as the adapter sees it: whether \<^verbatim>\<open>asyncpg.create_pool\<close>
  succeeds, which kinds of statement raise (acquiring the connection included), the
  table, the next value of the identifier sequence, and the trace of what the adapter
  has asked of it.
\<close>

datatype stmt = SelectAll | SelectById | InsertRow | UpdateRow | DeleteRow

datatype db_event = Connect | Statement stmt | ClosePool

datatype db_exc = DatabaseError

record db =
  db_reachable :: bool
  db_failing :: "stmt list"
  db_rows :: "customer list"
  db_next_id :: int
  db_events :: "db_event list"

definition record_event :: "db_event \<Rightarrow> db \<Rightarrow> db" where
  "record_event ev d = d\<lparr>db_events := db_events d @ [ev]\<rparr>"

text \<open>
  \<^verbatim>\<open>get_connection_pool\<close>: the pool, or \<^verbatim>\<open>None\<close> when creating it raised; the result is
  \<open>True\<close> when there is a pool.
\<close>

definition get_connection_pool :: "db \<Rightarrow> bool \<times> db" where
  "get_connection_pool d = (db_reachable d, record_event Connect d)"

text \<open>Running one statement: it is recorded, and it raises when the server fails it.\<close>

definition execute :: "stmt \<Rightarrow> db \<Rightarrow> (db_exc + unit) \<times> db" where
  "execute st d =
     (if st \<in> set (db_failing d) then Inl DatabaseError else Inr (), record_event (Statement st) d)"

definition has_id :: "int \<Rightarrow> customer \<Rightarrow> bool" where
  "has_id customer_id r = (cust_id r = customer_id)"

text \<open>\<^verbatim>\<open>get_customers\<close>.\<close>

definition get_customers_try :: "db \<Rightarrow> (db_exc + pydict list) \<times> db" where
  "get_customers_try d =
     (case execute SelectAll d of
        (Inl e, d1) \<Rightarrow> (Inl e, d1)
      | (Inr u, d1) \<Rightarrow> (Inr (map row_dict (db_rows d1)), d1))"

definition get_customers :: "db \<Rightarrow> pydict list \<times> db" where
  "get_customers d =
     (case get_connection_pool d of
        (False, d1) \<Rightarrow> ([], d1)
      | (True, d1) \<Rightarrow>
          (case get_customers_try d1 of
             (Inr customers, d2) \<Rightarrow> (customers, record_event ClosePool d2)
           | (Inl e, d2) \<Rightarrow> ([], record_event ClosePool d2)))"

text \<open>\<^verbatim>\<open>get_customer_by_id\<close>.\<close>

definition get_customer_by_id_try :: "db \<Rightarrow> int \<Rightarrow> (db_exc + pydict option) \<times> db" where
  "get_customer_by_id_try d customer_id =
     (case execute SelectById d of
        (Inl e, d1) \<Rightarrow> (Inl e, d1)
      | (Inr u, d1) \<Rightarrow>
          (case find (has_id customer_id) (db_rows d1) of
             Some row \<Rightarrow> (Inr (Some (row_dict row)), d1)
           | None \<Rightarrow> (Inr None, d1)))"

definition get_customer_by_id :: "db \<Rightarrow> int \<Rightarrow> pydict option \<times> db" where
  "get_customer_by_id d customer_id =
     (case get_connection_pool d of
        (False, d1) \<Rightarrow> (None, d1)
      | (True, d1) \<Rightarrow>
          (case get_customer_by_id_try d1 customer_id of
             (Inr found, d2) \<Rightarrow> (found, record_event ClosePool d2)
           | (Inl e, d2) \<Rightarrow> (None, record_event ClosePool d2)))"

text \<open>
  \<^verbatim>\<open>add_customer\<close>: the INSERT stores the four values as given and the server assigns
  the identifier; \<^verbatim>\<open>RETURNING *\<close> gives the new row.
\<close>

definition add_customer_try ::
  "db \<Rightarrow> string \<Rightarrow> string \<Rightarrow> int option \<Rightarrow> int option \<Rightarrow> (db_exc + pydict option) \<times> db" where
  "add_customer_try d name email age prefer_package =
     (case execute InsertRow d of
        (Inl e, d1) \<Rightarrow> (Inl e, d1)
      | (Inr u, d1) \<Rightarrow>
          (let row = \<lparr>cust_id = db_next_id d1, cust_name = name, cust_email = email,
                      cust_age = age, cust_pkg = prefer_package\<rparr>;
               d2 = d1\<lparr>db_rows := db_rows d1 @ [row], db_next_id := db_next_id d1 + 1\<rparr>
           in (Inr (Some (row_dict row)), d2)))"

definition add_customer ::
  "db \<Rightarrow> string \<Rightarrow> string \<Rightarrow> int option \<Rightarrow> int option \<Rightarrow> pydict option \<times> db" where
  "add_customer d name email age prefer_package =
     (case get_connection_pool d of
        (False, d1) \<Rightarrow> (None, d1)
      | (True, d1) \<Rightarrow>
          (case add_customer_try d1 name email age prefer_package of
             (Inr added, d2) \<Rightarrow> (added, record_event ClosePool d2)
           | (Inl e, d2) \<Rightarrow> (None, record_event ClosePool d2)))"

text \<open>
  \<^verbatim>\<open>update_customer\<close>: the SELECT of the current row, the merge (an argument that
  \<^verbatim>\<open>is not None\<close> replaces the current value), the UPDATE of the four columns of every
  row with that identifier, and the first row that \<^verbatim>\<open>RETURNING *\<close> gives.
\<close>

definition merge_row ::
  "customer \<Rightarrow> string option \<Rightarrow> string option \<Rightarrow> int option \<Rightarrow> int option \<Rightarrow> customer \<Rightarrow> customer" where
  "merge_row current name email age prefer_package r =
     (let new_name = (case name of Some n \<Rightarrow> n | None \<Rightarrow> cust_name current);
          new_email = (case email of Some e \<Rightarrow> e | None \<Rightarrow> cust_email current);
          new_age = (case age of Some a \<Rightarrow> Some a | None \<Rightarrow> cust_age current);
          new_prefer_package =
            (case prefer_package of Some p \<Rightarrow> Some p | None \<Rightarrow> cust_pkg current)
      in r\<lparr>cust_name := new_name, cust_email := new_email, cust_age := new_age,
            cust_pkg := new_prefer_package\<rparr>)"

definition update_customer_try ::
  "db \<Rightarrow> int \<Rightarrow> string option \<Rightarrow> string option \<Rightarrow> int option \<Rightarrow> int option
     \<Rightarrow> (db_exc + pydict option) \<times> db" where
  "update_customer_try d customer_id name email age prefer_package =
     (case execute SelectById d of
        (Inl e, d1) \<Rightarrow> (Inl e, d1)
      | (Inr u, d1) \<Rightarrow>
          (case find (has_id customer_id) (db_rows d1) of
             None \<Rightarrow> (Inr None, d1)
           | Some current \<Rightarrow>
               (case execute UpdateRow d1 of
                  (Inl e, d2) \<Rightarrow> (Inl e, d2)
                | (Inr u, d2) \<Rightarrow>
                    (let rows = map (\<lambda>r. if has_id customer_id r
                                      then merge_row current name email age prefer_package r
                                      else r) (db_rows d2);
                         d3 = d2\<lparr>db_rows := rows\<rparr>
                     in (case find (has_id customer_id) rows of
                           Some row \<Rightarrow> (Inr (Some (row_dict row)), d3)
                         | None \<Rightarrow> (Inr None, d3))))))"

definition update_customer ::
  "db \<Rightarrow> int \<Rightarrow> string option \<Rightarrow> string option \<Rightarrow> int option \<Rightarrow> int option
     \<Rightarrow> pydict option \<times> db" where
  "update_customer d customer_id name email age prefer_package =
     (case get_connection_pool d of
        (False, d1) \<Rightarrow> (None, d1)
      | (True, d1) \<Rightarrow>
          (case update_customer_try d1 customer_id name email age prefer_package of
             (Inr updated, d2) \<Rightarrow> (updated, record_event ClosePool d2)
           | (Inl e, d2) \<Rightarrow> (None, record_event ClosePool d2)))"

text \<open>
  \<^verbatim>\<open>delete_customer\<close>. \<^verbatim>\<open>conn.execute\<close> returns the command tag of the server, the word
  \<^verbatim>\<open>DELETE\<close> followed by the number of rows deleted; the adapter tests
  \<^verbatim>\<open>'DELETE' in result\<close>.
\<close>

definition delete_status :: "nat \<Rightarrow> string" where
  "delete_status n = ''DELETE '' @ str_nat n"

definition delete_customer_try :: "db \<Rightarrow> int \<Rightarrow> (db_exc + bool) \<times> db" where
  "delete_customer_try d customer_id =
     (case execute DeleteRow d of
        (Inl e, d1) \<Rightarrow> (Inl e, d1)
      | (Inr u, d1) \<Rightarrow>
          (let result = delete_status (length (filter (has_id customer_id) (db_rows d1)));
               d2 = d1\<lparr>db_rows := filter (\<lambda>r. \<not> has_id customer_id r) (db_rows d1)\<rparr>
           in if str_contains ''DELETE'' result then (Inr True, d2) else (Inr False, d2)))"

definition delete_customer :: "db \<Rightarrow> int \<Rightarrow> bool \<times> db" where
  "delete_customer d customer_id =
     (case get_connection_pool d of
        (False, d1) \<Rightarrow> (False, d1)
      | (True, d1) \<Rightarrow>
          (case delete_customer_try d1 customer_id of
             (Inr success, d2) \<Rightarrow> (success, record_event ClosePool d2)
           | (Inl e, d2) \<Rightarrow> (False, record_event ClosePool d2)))"

section \<open>The customer tools (\<^verbatim>\<open>server.py\<close>)\<close>

text \<open>\<^verbatim>\<open>str\<close> of a column value, and \<^verbatim>\<open>customer.get(key, default)\<close>.\<close>

fun col_str :: "colval \<Rightarrow> string" where
  "col_str Null = ''None''"
| "col_str (IntVal i) = str_int i"
| "col_str (TextVal s) = s"

definition dict_get :: "pydict \<Rightarrow> string \<Rightarrow> colval \<Rightarrow> colval" where
  "dict_get d key dflt = (case map_of d key of Some v \<Rightarrow> v | None \<Rightarrow> dflt)"

text \<open>\<^verbatim>\<open>not customer\<close> for an optional dict: \<^verbatim>\<open>None\<close> and the empty dict are falsy.\<close>

definition no_dict :: "pydict option \<Rightarrow> bool" where
  "no_dict customer = (case customer of None \<Rightarrow> True | Some d \<Rightarrow> d = [])"

text \<open>The block of one customer in \<^verbatim>\<open>list_customers\<close>.\<close>

definition list_block :: "pydict \<Rightarrow> string" where
  "list_block customer = dedent (join_lines
     [[],
      ''        ID: '' @ col_str (dict_get customer ''id'' Null),
      ''        Name: '' @ col_str (dict_get customer ''name'' (TextVal ''N/A'')),
      ''        Email: '' @ col_str (dict_get customer ''email'' (TextVal ''N/A'')),
      ''        Age: '' @ col_str (dict_get customer ''age'' (TextVal ''N/A'')),
      ''        Prefer Package: '' @ col_str (dict_get customer ''prefer_package'' (TextVal ''N/A'')),
      ''        ---'',
      ''        ''])"

definition list_customers :: "db \<Rightarrow> string \<times> db" where
  "list_customers d =
     (case get_customers d of
        (customers, d1) \<Rightarrow>
          (if customers = [] then (''No customers found in the database.'', d1)
           else (''Customers:'' @ [newline] @ concat (map list_block customers), d1)))"

text \<open>The text of \<^verbatim>\<open>get_customer\<close> for a record that was found.\<close>

definition customer_details :: "pydict \<Rightarrow> string" where
  "customer_details customer = dedent (join_lines
     [[],
      ''    Customer Details:'',
      ''    ID: '' @ col_str (dict_get customer ''id'' Null),
      ''    Name: '' @ col_str (dict_get customer ''name'' (TextVal ''N/A'')),
      ''    Email: '' @ col_str (dict_get customer ''email'' (TextVal ''N/A'')),
      ''    Age: '' @ col_str (dict_get customer ''age'' (TextVal ''N/A'')),
      ''    Prefer Package: '' @ col_str (dict_get customer ''prefer_package'' (TextVal ''N/A'')),
      ''    ''])"

definition get_customer :: "db \<Rightarrow> int \<Rightarrow> string \<times> db" where
  "get_customer d customer_id =
     (case get_customer_by_id d customer_id of
        (customer, d1) \<Rightarrow>
          (if no_dict customer then (''No customer found with ID: '' @ str_int customer_id, d1)
           else (case customer of
                   Some c \<Rightarrow> (customer_details c, d1)
                 | None \<Rightarrow> (''No customer found with ID: '' @ str_int customer_id, d1))))"

text \<open>
  The text of \<^verbatim>\<open>create_customer\<close> and \<^verbatim>\<open>modify_customer\<close> for the record the adapter
  returned, under its heading; name and email are read without a default.
\<close>

definition customer_report :: "string \<Rightarrow> pydict \<Rightarrow> string" where
  "customer_report heading customer = dedent (join_lines
     [[],
      ''    '' @ heading,
      ''    ID: '' @ col_str (dict_get customer ''id'' Null),
      ''    Name: '' @ col_str (dict_get customer ''name'' Null),
      ''    Email: '' @ col_str (dict_get customer ''email'' Null),
      ''    Age: '' @ col_str (dict_get customer ''age'' (TextVal ''N/A'')),
      ''    Prefer Package: '' @ col_str (dict_get customer ''prefer_package'' (TextVal ''N/A'')),
      ''    ''])"

text \<open>
  Truth values of the optional tool arguments: \<^verbatim>\<open>None\<close>, the empty string and the
  integer 0 are falsy.
\<close>

definition not_str :: "string option \<Rightarrow> bool" where
  "not_str s = (case s of None \<Rightarrow> True | Some t \<Rightarrow> t = [])"

definition truthy_str :: "string option \<Rightarrow> bool" where
  "truthy_str s = (case s of None \<Rightarrow> False | Some t \<Rightarrow> t \<noteq> [])"

definition truthy_int :: "int option \<Rightarrow> bool" where
  "truthy_int i = (case i of None \<Rightarrow> False | Some n \<Rightarrow> n \<noteq> 0)"

definition py_any :: "bool list \<Rightarrow> bool" where
  "py_any bs = list_ex (\<lambda>b. b) bs"

text \<open>\<^verbatim>\<open>create_customer\<close>.\<close>

definition create_customer ::
  "db \<Rightarrow> string option \<Rightarrow> string option \<Rightarrow> int option \<Rightarrow> int option \<Rightarrow> string \<times> db" where
  "create_customer d name email age prefer_package =
     (if not_str name \<or> not_str email then (''Error: Customer name and email are required.'', d)
      else (case (name, email) of
              (Some n, Some e) \<Rightarrow>
                (case add_customer d n e age prefer_package of
                   (customer, d1) \<Rightarrow>
                     (if no_dict customer
                      then (''Failed to create customer. Please check database connection and try again.'', d1)
                      else (case customer of
                              Some c \<Rightarrow> (customer_report ''Customer created successfully:'' c, d1)
                            | None \<Rightarrow> (''Failed to create customer. Please check database connection and try again.'', d1))))
            | _ \<Rightarrow> (''Error: Customer name and email are required.'', d)))"

text \<open>\<^verbatim>\<open>modify_customer\<close>.\<close>

definition modify_customer ::
  "db \<Rightarrow> int \<Rightarrow> string option \<Rightarrow> string option \<Rightarrow> int option \<Rightarrow> int option \<Rightarrow> string \<times> db" where
  "modify_customer d customer_id name email age prefer_package =
     (if \<not> py_any [truthy_str name, truthy_str email, truthy_int age, truthy_int prefer_package]
      then (''Error: At least one field (name, email, or phone) must be provided for update.'', d)
      else (case update_customer d customer_id name email age prefer_package of
              (customer, d1) \<Rightarrow>
                (if no_dict customer
                 then (''Failed to update customer with ID: '' @ str_int customer_id
                         @ ''. Customer may not exist.'', d1)
                 else (case customer of
                         Some c \<Rightarrow> (customer_report ''Customer updated successfully:'' c, d1)
                       | None \<Rightarrow> (''Failed to update customer with ID: '' @ str_int customer_id
                                     @ ''. Customer may not exist.'', d1)))))"

text \<open>\<^verbatim>\<open>remove_customer\<close>.\<close>

definition remove_customer :: "db \<Rightarrow> int \<Rightarrow> string \<times> db" where
  "remove_customer d customer_id =
     (case delete_customer d customer_id of
        (success, d1) \<Rightarrow>
          (if \<not> success
           then (''Failed to delete customer with ID: '' @ str_int customer_id
                   @ ''. Customer may not exist.'', d1)
           else (''Customer with ID: '' @ str_int customer_id @ '' has been successfully deleted.'', d1)))"

section \<open>Sample inputs\<close>

text \<open>A reachable database holding one customer who has neither age nor package.\<close>

definition sample_customer :: customer where
  "sample_customer =
     \<lparr>cust_id = 1, cust_name = ''Ann'', cust_email = ''ann@example.com'',
      cust_age = None, cust_pkg = None\<rparr>"

definition sample_db :: db where
  "sample_db =
     \<lparr>db_reachable = True, db_failing = [], db_rows = [sample_customer], db_next_id = 2,
      db_events = []\<rparr>"

text \<open>
  A weather service that answers the points request with the forecast URL and the
  forecast request with six periods followed by a \<^verbatim>\<open>null\<close>; every other request fails in
  transport.
\<close>

definition sample_period :: "string \<Rightarrow> pyval" where
  "sample_period name =
     PDict [(''name'', PStr name), (''temperature'', PInt 70), (''temperatureUnit'', PStr ''F''),
            (''windSpeed'', PStr ''5 mph''), (''windDirection'', PStr ''N''),
            (''detailedForecast'', PStr ''Sunny'')]"

definition sample_block :: "string \<Rightarrow> string" where
  "sample_block name =
     join_lines [[], name @ '':'', ''Temperature: 70'' @ [CHR 0xC2, CHR 0xB0] @ ''F'',
                 ''Wind: 5 mph N'', ''Forecast: Sunny'', []]"

definition sample_periods :: "pyval list" where
  "sample_periods =
     [sample_period ''Mon'', sample_period ''Tue'', sample_period ''Wed'', sample_period ''Thu'',
      sample_period ''Fri'', sample_period ''Sat'', PNone]"

definition sample_network :: network where
  "sample_network url =
     (if url = ''https://api.weather.gov/points/39.7,-104.9''
      then Inr \<lparr>status_code = 200,
                json_body = Inr (PDict [(''properties'', PDict [(''forecast'', PStr ''forecast'')])])\<rparr>
      else if url = ''forecast''
      then Inr \<lparr>status_code = 200,
                json_body = Inr (PDict [(''properties'', PDict [(''periods'', PList sample_periods)])])\<rparr>
      else Inl RequestError)"

section \<open>Properties of the external call adapter\<close>

lemma make_nws_request_failed:
  "make_nws_request_try py_repr net url = Inl e \<Longrightarrow> make_nws_request py_repr net url = PNone"
  by (cases e) (simp_all add: make_nws_request_def)

text \<open>
  C4. For every URL, \<open>make_nws_request\<close> returns the parsed body when the response has a
  2xx status and a body that parses, and returns \<open>PNone\<close> (Python's \<^verbatim>\<open>None\<close>) when the
  request fails in transport or by timeout, when the status is not 2xx, and when the
  body does not parse. Its result is a plain value: it has no exceptional outcome.
\<close>

theorem make_nws_request_contract:
  "(net url = Inr resp \<and> 200 \<le> status_code resp \<and> status_code resp \<le> 299
      \<and> json_body resp = Inr data
      \<longrightarrow> make_nws_request py_repr net url = data)
   \<and> (net url = Inl e \<longrightarrow> make_nws_request py_repr net url = PNone)
   \<and> (net url = Inr resp \<and> \<not> (200 \<le> status_code resp \<and> status_code resp \<le> 299)
      \<longrightarrow> make_nws_request py_repr net url = PNone)
   \<and> (net url = Inr resp \<and> json_body resp = Inl e
      \<longrightarrow> make_nws_request py_repr net url = PNone)"
proof (intro conjI impI)
  assume "net url = Inr resp \<and> 200 \<le> status_code resp \<and> status_code resp \<le> 299
      \<and> json_body resp = Inr data"
  then show "make_nws_request py_repr net url = data"
    by (simp add: make_nws_request_def make_nws_request_try_def raise_for_status_def)
next
  assume "net url = Inl e"
  then have "make_nws_request_try py_repr net url = Inl e"
    by (simp add: make_nws_request_try_def)
  then show "make_nws_request py_repr net url = PNone"
    by (rule make_nws_request_failed)
next
  assume "net url = Inr resp \<and> \<not> (200 \<le> status_code resp \<and> status_code resp \<le> 299)"
  then have "make_nws_request_try py_repr net url = Inl HTTPStatusError"
    by (auto simp add: make_nws_request_try_def raise_for_status_def)
  then show "make_nws_request py_repr net url = PNone"
    by (rule make_nws_request_failed)
next
  assume a: "net url = Inr resp \<and> json_body resp = Inl e"
  have "\<exists>e'. make_nws_request_try py_repr net url = Inl e'"
    using a by (simp add: make_nws_request_try_def raise_for_status_def)
  then show "make_nws_request py_repr net url = PNone"
    by (auto intro: make_nws_request_failed)
qed

theorem make_nws_request_contract_witness:
  "make_nws_request (\<lambda>v. [])
      (\<lambda>u. Inr \<lparr>status_code = 200, json_body = Inr (PDict [(''features'', PList [])])\<rparr>)
      ''https://api.weather.gov/alerts/active/area/CA''
     = PDict [(''features'', PList [])]
   \<and> make_nws_request (\<lambda>v. []) (\<lambda>u. Inl RequestError)
      ''https://api.weather.gov/alerts/active/area/CA'' = PNone
   \<and> make_nws_request (\<lambda>v. [])
      (\<lambda>u. Inr \<lparr>status_code = 404, json_body = Inr (PDict [(''features'', PList [])])\<rparr>)
      ''https://api.weather.gov/alerts/active/area/CA'' = PNone
   \<and> make_nws_request (\<lambda>v. [])
      (\<lambda>u. Inr \<lparr>status_code = 200, json_body = Inl JSONDecodeError\<rparr>)
      ''https://api.weather.gov/alerts/active/area/CA'' = PNone"
  using
    make_nws_request_contract [of
      "\<lambda>u. Inr \<lparr>status_code = 200, json_body = Inr (PDict [(''features'', PList [])])\<rparr>"
      "''https://api.weather.gov/alerts/active/area/CA''"
      "\<lparr>status_code = 200, json_body = Inr (PDict [(''features'', PList [])])\<rparr>"
      "PDict [(''features'', PList [])]" "\<lambda>v. []" RequestError]
    make_nws_request_contract [of
      "\<lambda>u. Inl RequestError"
      "''https://api.weather.gov/alerts/active/area/CA''"
      "\<lparr>status_code = 200, json_body = Inl JSONDecodeError\<rparr>"
      "PNone" "\<lambda>v. []" RequestError]
    make_nws_request_contract [of
      "\<lambda>u. Inr \<lparr>status_code = 404, json_body = Inr (PDict [(''features'', PList [])])\<rparr>"
      "''https://api.weather.gov/alerts/active/area/CA''"
      "\<lparr>status_code = 404, json_body = Inr (PDict [(''features'', PList [])])\<rparr>"
      "PNone" "\<lambda>v. []" RequestError]
    make_nws_request_contract [of
      "\<lambda>u. Inr \<lparr>status_code = 200, json_body = Inl JSONDecodeError\<rparr>"
      "''https://api.weather.gov/alerts/active/area/CA''"
      "\<lparr>status_code = 200, json_body = Inl JSONDecodeError\<rparr>"
      "PNone" "\<lambda>v. []" JSONDecodeError]
  by simp

lemma make_nws_request_ok:
  "net url = Inr resp \<and> 200 \<le> status_code resp \<and> status_code resp \<le> 299
     \<and> json_body resp = Inr data \<and> P
   \<Longrightarrow> make_nws_request py_repr net url = data"
  by (simp add: make_nws_request_def make_nws_request_try_def raise_for_status_def)

lemma make_nws_request_down:
  "net url = Inl e \<or> (net url = Inr resp \<and>
      (\<not> (200 \<le> status_code resp \<and> status_code resp \<le> 299) \<or> json_body resp = Inl e'))
   \<Longrightarrow> make_nws_request py_repr net url = PNone"
  by (auto simp add: make_nws_request_def make_nws_request_try_def raise_for_status_def
      split: http_exc.splits sum.splits)

section \<open>Properties of the weather tools\<close>

text \<open>
  C3. The claim is that no tool invocation lets an exception escape, whatever the
  upstream response, also a 2xx response whose body lacks \<^verbatim>\<open>properties\<close>, \<^verbatim>\<open>forecast\<close>
  or \<^verbatim>\<open>periods\<close>. The code does not do that: for a 2xx points response whose body is a
  non-empty object without the key \<^verbatim>\<open>properties\<close>, \<open>get_forecast\<close> raises \<^verbatim>\<open>KeyError\<close>
  at its unguarded subscript, for every pair of coordinates; and \<open>get_alerts\<close> raises the
  same error from \<open>format_alert\<close> for a feature without that key.
\<close>

theorem get_forecast_raises_on_missing_properties:
  "get_forecast py_repr
     (\<lambda>url. Inr \<lparr>status_code = 200, json_body = Inr (PDict [(''status'', PStr ''OK'')])\<rparr>)
     latitude longitude
   = Inl (KeyError ''properties'')
   \<and> get_alerts py_repr
     (\<lambda>url. Inr \<lparr>status_code = 200,
                   json_body = Inr (PDict [(''features'', PList [PDict [(''id'', PStr ''a1'')]])])\<rparr>)
     state
   = Inl (KeyError ''properties'')"
  by (simp add: get_forecast_def get_alerts_def make_nws_request_def make_nws_request_try_def
      raise_for_status_def and_then_def format_alert_def)

lemma map_of_key: "map_of kvs k = Some v \<Longrightarrow> k \<in> fst ` set kvs"
  by (metis domI dom_map_of_conv_image_fst)

text \<open>
  C8. For every state, \<open>get_alerts\<close> returns the fixed text "No active alerts for this
  state." when the upstream call succeeds (a 2xx response whose body is an object with
  an empty list under \<^verbatim>\<open>features\<close>), and the fixed text "Unable to fetch alerts or no
  alerts found." when the upstream call fails (transport failure, a status that is not
  2xx, or a body that does not parse); the two texts differ.
\<close>

theorem get_alerts_messages:
  "(net (NWS_API_BASE @ ''/alerts/active/area/'' @ state) = Inr resp
      \<and> 200 \<le> status_code resp \<and> status_code resp \<le> 299
      \<and> json_body resp = Inr (PDict kvs) \<and> map_of kvs ''features'' = Some (PList [])
    \<longrightarrow> get_alerts py_repr net state = Inr ''No active alerts for this state.'')
   \<and> ((net (NWS_API_BASE @ ''/alerts/active/area/'' @ state) = Inl e
        \<or> (net (NWS_API_BASE @ ''/alerts/active/area/'' @ state) = Inr resp
            \<and> (\<not> (200 \<le> status_code resp \<and> status_code resp \<le> 299) \<or> json_body resp = Inl e')))
    \<longrightarrow> get_alerts py_repr net state = Inr ''Unable to fetch alerts or no alerts found.'')
   \<and> ''No active alerts for this state.'' \<noteq> ''Unable to fetch alerts or no alerts found.''"
proof (intro conjI impI)
  assume h: "net (NWS_API_BASE @ ''/alerts/active/area/'' @ state) = Inr resp
      \<and> 200 \<le> status_code resp \<and> status_code resp \<le> 299
      \<and> json_body resp = Inr (PDict kvs) \<and> map_of kvs ''features'' = Some (PList [])"
  then have data: "make_nws_request py_repr net (NWS_API_BASE @ ''/alerts/active/area/'' @ state)
      = PDict kvs"
    by (rule make_nws_request_ok)
  have key: "''features'' \<in> fst ` set kvs"
    using h by (intro map_of_key) simp
  then have "kvs \<noteq> []" by auto
  with h key show "get_alerts py_repr net state = Inr ''No active alerts for this state.''"
    unfolding get_alerts_def Let_def data by (simp add: and_then_def)
next
  assume "net (NWS_API_BASE @ ''/alerts/active/area/'' @ state) = Inl e
        \<or> (net (NWS_API_BASE @ ''/alerts/active/area/'' @ state) = Inr resp
            \<and> (\<not> (200 \<le> status_code resp \<and> status_code resp \<le> 299) \<or> json_body resp = Inl e'))"
  then have "make_nws_request py_repr net (NWS_API_BASE @ ''/alerts/active/area/'' @ state) = PNone"
    by (rule make_nws_request_down)
  then show "get_alerts py_repr net state = Inr ''Unable to fetch alerts or no alerts found.''"
    unfolding get_alerts_def Let_def by simp
next
  show "''No active alerts for this state.'' \<noteq> ''Unable to fetch alerts or no alerts found.''"
    by simp
qed

theorem get_alerts_messages_witness:
  "get_alerts (\<lambda>v. [])
     (\<lambda>url. Inr \<lparr>status_code = 200, json_body = Inr (PDict [(''features'', PList [])])\<rparr>)
     ''CA''
   = Inr ''No active alerts for this state.''
   \<and> get_alerts (\<lambda>v. []) (\<lambda>url. Inl RequestError) ''CA''
   = Inr ''Unable to fetch alerts or no alerts found.''
   \<and> get_alerts (\<lambda>v. [])
     (\<lambda>url. Inr \<lparr>status_code = 503, json_body = Inr (PDict [(''features'', PList [])])\<rparr>)
     ''CA''
   = Inr ''Unable to fetch alerts or no alerts found.''"
  using
    get_alerts_messages [where
      net = "\<lambda>url. Inr \<lparr>status_code = 200, json_body = Inr (PDict [(''features'', PList [])])\<rparr>"
      and state = "''CA''" and py_repr = "\<lambda>v. []"
      and resp = "\<lparr>status_code = 200, json_body = Inr (PDict [(''features'', PList [])])\<rparr>"
      and kvs = "[(''features'', PList [])]" and e = RequestError and e' = JSONDecodeError]
    get_alerts_messages [where
      net = "\<lambda>url. Inl RequestError"
      and state = "''CA''" and py_repr = "\<lambda>v. []"
      and resp = "\<lparr>status_code = 200, json_body = Inr (PDict [(''features'', PList [])])\<rparr>"
      and kvs = "[(''features'', PList [])]" and e = RequestError and e' = JSONDecodeError]
    get_alerts_messages [where
      net = "\<lambda>url. Inr \<lparr>status_code = 503, json_body = Inr (PDict [(''features'', PList [])])\<rparr>"
      and state = "''CA''" and py_repr = "\<lambda>v. []"
      and resp = "\<lparr>status_code = 503, json_body = Inr (PDict [(''features'', PList [])])\<rparr>"
      and kvs = "[(''features'', PList [])]" and e = RequestError and e' = JSONDecodeError]
  by simp

lemma for_each_length: "for_each f xs = Inr ys \<Longrightarrow> length ys = length xs"
  by (induction xs arbitrary: ys) (auto split: sum.splits)

lemma for_each_nth: "for_each f xs = Inr ys \<Longrightarrow> i < length xs \<Longrightarrow> f (xs ! i) = Inr (ys ! i)"
proof (induction xs arbitrary: ys i)
  case Nil
  then show ?case by simp
next
  case (Cons x xs)
  from Cons.prems(1) obtain y ys' where
    fx: "f x = Inr y" and rest: "for_each f xs = Inr ys'" and ys: "ys = y # ys'"
    by (auto split: sum.splits)
  show ?case
  proof (cases i)
    case 0
    with fx ys show ?thesis by simp
  next
    case (Suc j)
    with Cons.prems(2) have "j < length xs" by simp
    with Cons.IH [OF rest] have "f (xs ! j) = Inr (ys' ! j)" by simp
    with Suc ys show ?thesis by simp
  qed
qed

lemma get_forecast_payload:
  assumes "make_nws_request py_repr net (NWS_API_BASE @ ''/points/'' @ latitude @ '','' @ longitude)
             = points_data"
    and "truthy points_data"
    and "subscript points_data ''properties'' = Inr props"
    and "subscript props ''forecast'' = Inr forecast_url"
    and "make_nws_request_val py_repr net forecast_url = forecast_data"
    and "truthy forecast_data"
    and "subscript forecast_data ''properties'' = Inr fprops"
    and "subscript fprops ''periods'' = Inr (PList ps)"
  shows "get_forecast py_repr net latitude longitude
    = map_sum id (join separator) (for_each (format_period py_repr) (take 5 ps))"
  unfolding get_forecast_def Let_def assms(1)
  using assms(2-)
  by (cases "for_each (format_period py_repr) (take 5 ps)") (simp_all add: and_then_def)

text \<open>
  C9. For every successful forecast payload (the points request gives a forecast URL,
  the forecast request gives an object whose \<^verbatim>\<open>properties.periods\<close> is a list),
  \<open>get_forecast\<close> formats the first five periods of the list and nothing else: its
  result is the loop body run over \<open>take 5 ps\<close>, joined by the separator; so whenever it
  returns a text, the text is the join of \<open>min 5 (length ps)\<close> blocks, and the block at
  position \<open>i\<close> is the rendering of the period at position \<open>i\<close> of the source list.
\<close>

theorem get_forecast_first_five:
  "make_nws_request py_repr net (NWS_API_BASE @ ''/points/'' @ latitude @ '','' @ longitude)
      = points_data
   \<and> truthy points_data
   \<and> subscript points_data ''properties'' = Inr props
   \<and> subscript props ''forecast'' = Inr forecast_url
   \<and> make_nws_request_val py_repr net forecast_url = forecast_data
   \<and> truthy forecast_data
   \<and> subscript forecast_data ''properties'' = Inr fprops
   \<and> subscript fprops ''periods'' = Inr (PList ps)
   \<longrightarrow> get_forecast py_repr net latitude longitude
         = map_sum id (join separator) (for_each (format_period py_repr) (take 5 ps))
       \<and> (\<forall>out. get_forecast py_repr net latitude longitude = Inr out
            \<longrightarrow> (\<exists>blocks. out = join separator blocks
                  \<and> length blocks = min 5 (length ps)
                  \<and> (\<forall>i < length blocks. format_period py_repr (ps ! i) = Inr (blocks ! i))))"
proof (intro impI)
  assume h: "make_nws_request py_repr net (NWS_API_BASE @ ''/points/'' @ latitude @ '','' @ longitude)
      = points_data
   \<and> truthy points_data
   \<and> subscript points_data ''properties'' = Inr props
   \<and> subscript props ''forecast'' = Inr forecast_url
   \<and> make_nws_request_val py_repr net forecast_url = forecast_data
   \<and> truthy forecast_data
   \<and> subscript forecast_data ''properties'' = Inr fprops
   \<and> subscript fprops ''periods'' = Inr (PList ps)"
  have eq: "get_forecast py_repr net latitude longitude
         = map_sum id (join separator) (for_each (format_period py_repr) (take 5 ps))"
    using h by (intro get_forecast_payload [where points_data = points_data and props = props
          and forecast_url = forecast_url and forecast_data = forecast_data and fprops = fprops])
      blast+
  have shown: "\<exists>blocks. out = join separator blocks
                  \<and> length blocks = min 5 (length ps)
                  \<and> (\<forall>i < length blocks. format_period py_repr (ps ! i) = Inr (blocks ! i))"
    if ok: "get_forecast py_repr net latitude longitude = Inr out" for out
  proof -
    from ok eq obtain blocks where
      b: "for_each (format_period py_repr) (take 5 ps) = Inr blocks" and t: "out = join separator blocks"
      by (cases "for_each (format_period py_repr) (take 5 ps)") auto
    have len: "length blocks = min 5 (length ps)"
      using for_each_length [OF b] by (simp add: min.commute)
    have "format_period py_repr (ps ! i) = Inr (blocks ! i)" if "i < length blocks" for i
      using for_each_nth [OF b, of i] that len by simp
    with t len show ?thesis by blast
  qed
  from eq shown show "get_forecast py_repr net latitude longitude
         = map_sum id (join separator) (for_each (format_period py_repr) (take 5 ps))
       \<and> (\<forall>out. get_forecast py_repr net latitude longitude = Inr out
            \<longrightarrow> (\<exists>blocks. out = join separator blocks
                  \<and> length blocks = min 5 (length ps)
                  \<and> (\<forall>i < length blocks. format_period py_repr (ps ! i) = Inr (blocks ! i))))"
    by blast
qed

lemma sample_blocks:
  "for_each (format_period (\<lambda>v. [])) (take 5 sample_periods)
   = Inr (map sample_block [''Mon'', ''Tue'', ''Wed'', ''Thu'', ''Fri''])"
  by code_simp

theorem get_forecast_first_five_witness:
  "get_forecast (\<lambda>v. []) sample_network ''39.7'' ''-104.9''
   = Inr (join separator (map sample_block [''Mon'', ''Tue'', ''Wed'', ''Thu'', ''Fri'']))"
proof -
  have points: "make_nws_request (\<lambda>v. []) sample_network
      (NWS_API_BASE @ ''/points/'' @ ''39.7'' @ '','' @ ''-104.9'')
      = PDict [(''properties'', PDict [(''forecast'', PStr ''forecast'')])]"
    by (simp add: make_nws_request_def make_nws_request_try_def raise_for_status_def
        sample_network_def NWS_API_BASE_def)
  have forecast: "make_nws_request_val (\<lambda>v. []) sample_network (PStr ''forecast'')
      = PDict [(''properties'', PDict [(''periods'', PList sample_periods)])]"
    by (simp add: make_nws_request_val_def make_nws_request_def make_nws_request_try_def
        raise_for_status_def sample_network_def)
  have "get_forecast (\<lambda>v. []) sample_network ''39.7'' ''-104.9''
      = map_sum id (join separator) (for_each (format_period (\<lambda>v. [])) (take 5 sample_periods))"
    using points forecast
      get_forecast_first_five [where py_repr = "\<lambda>v. []" and net = sample_network
        and latitude = "''39.7''" and longitude = "''-104.9''"
        and points_data = "PDict [(''properties'', PDict [(''forecast'', PStr ''forecast'')])]"
        and props = "PDict [(''forecast'', PStr ''forecast'')]"
        and forecast_url = "PStr ''forecast''"
        and forecast_data = "PDict [(''properties'', PDict [(''periods'', PList sample_periods)])]"
        and fprops = "PDict [(''periods'', PList sample_periods)]"
        and ps = sample_periods]
    by simp
  then show ?thesis
    by (simp only: sample_blocks map_sum.simps)
qed

section \<open>Properties of the data access adapter\<close>

lemma startswith_append: "startswith (p @ s) p"
  by (induction p) simp_all

lemma str_contains_prefix: "str_contains p (p @ s)"
  by (cases "p @ s") (auto simp add: startswith_append dest: sym)

text \<open>
  Every command tag of a DELETE contains the word the adapter looks for, so on a
  reachable database whose DELETE does not raise the adapter answers \<open>True\<close>, whatever
  the number of rows deleted.
\<close>

lemma delete_customer_always_true:
  "db_reachable d \<Longrightarrow> DeleteRow \<notin> set (db_failing d) \<Longrightarrow> fst (delete_customer d customer_id) = True"
  by (simp add: delete_customer_def get_connection_pool_def delete_customer_try_def execute_def
      record_event_def delete_status_def str_contains_prefix Let_def)

text \<open>
  C1. The claim is that \<open>delete_customer\<close> returns true exactly when the database
  reports at least one affected row, so that deleting an identifier that does not exist
  returns false. The code does not do that: the sample database has no customer 99, the
  DELETE affects no row and leaves the table as it was, and \<open>delete_customer\<close> returns
  \<open>True\<close>; \<open>remove_customer\<close> then reports the deletion as successful.
\<close>

theorem delete_missing_customer_reports_success:
  "find (has_id 99) (db_rows sample_db) = None
   \<and> delete_customer sample_db 99
     = (True, sample_db\<lparr>db_events := [Connect, Statement DeleteRow, ClosePool]\<rparr>)
   \<and> fst (remove_customer sample_db 99) = ''Customer with ID: 99 has been successfully deleted.''"
  by code_simp

lemma find_map_merge:
  "find (has_id cid) rows = Some current \<Longrightarrow>
   find (has_id cid) (map (\<lambda>r. if has_id cid r then merge_row current name email age pkg r else r) rows)
     = Some (merge_row current name email age pkg current)"
proof (induction rows)
  case Nil
  then show ?case by simp
next
  case (Cons r rows)
  have keep: "has_id cid (merge_row current name email age pkg r) = has_id cid r" for r
    by (simp add: has_id_def merge_row_def Let_def)
  show ?case
  proof (cases "has_id cid r")
    case True
    with Cons.prems have "r = current" by simp
    with True show ?thesis by (simp add: keep)
  next
    case False
    with Cons show ?thesis by simp
  qed
qed

lemma update_customer_found:
  assumes "db_reachable d" and "SelectById \<notin> set (db_failing d)"
    and "UpdateRow \<notin> set (db_failing d)"
    and "find (has_id cid) (db_rows d) = Some current"
  shows "update_customer d cid name email age pkg =
    (Some (row_dict (merge_row current name email age pkg current)),
     d\<lparr>db_rows := map (\<lambda>r. if has_id cid r then merge_row current name email age pkg r else r)
                     (db_rows d),
        db_events := db_events d @ [Connect, Statement SelectById, Statement UpdateRow, ClosePool]\<rparr>)"
  using assms
  by (simp add: update_customer_def get_connection_pool_def update_customer_try_def execute_def
      record_event_def Let_def find_map_merge)

lemma update_customer_missing:
  assumes "find (has_id cid) (db_rows d) = None"
  shows "fst (update_customer d cid name email age pkg) = None"
    and "db_rows (snd (update_customer d cid name email age pkg)) = db_rows d"
  using assms
  by (simp_all add: update_customer_def get_connection_pool_def update_customer_try_def execute_def
      record_event_def Let_def split: bool.splits)

text \<open>
  C5. For every update of an existing customer on a reachable database whose SELECT
  and UPDATE do not raise, \<open>update_customer\<close> issues the SELECT of the current record
  before the UPDATE, and the record it returns, which is also the record then stored
  under that identifier, keeps the identifier and keeps the current value of every field
  whose argument was not supplied. For an identifier with no record it returns \<open>None\<close>,
  the not-found outcome, and leaves the table as it was.
\<close>

theorem update_customer_keeps_unsupplied:
  "(db_reachable d \<and> SelectById \<notin> set (db_failing d) \<and> UpdateRow \<notin> set (db_failing d)
      \<and> find (has_id cid) (db_rows d) = Some current
    \<longrightarrow> (\<exists>row d'. update_customer d cid name email age pkg = (Some (row_dict row), d')
          \<and> find (has_id cid) (db_rows d') = Some row
          \<and> db_events d' = db_events d @ [Connect, Statement SelectById, Statement UpdateRow, ClosePool]
          \<and> cust_id row = cust_id current
          \<and> (name = None \<longrightarrow> cust_name row = cust_name current)
          \<and> (email = None \<longrightarrow> cust_email row = cust_email current)
          \<and> (age = None \<longrightarrow> cust_age row = cust_age current)
          \<and> (pkg = None \<longrightarrow> cust_pkg row = cust_pkg current)))
   \<and> (find (has_id cid) (db_rows d) = None
    \<longrightarrow> fst (update_customer d cid name email age pkg) = None
        \<and> db_rows (snd (update_customer d cid name email age pkg)) = db_rows d)"
proof (intro conjI impI)
  assume h: "db_reachable d \<and> SelectById \<notin> set (db_failing d) \<and> UpdateRow \<notin> set (db_failing d)
      \<and> find (has_id cid) (db_rows d) = Some current"
  let ?row = "merge_row current name email age pkg current"
  have "update_customer d cid name email age pkg =
    (Some (row_dict ?row),
     d\<lparr>db_rows := map (\<lambda>r. if has_id cid r then merge_row current name email age pkg r else r)
                     (db_rows d),
        db_events := db_events d @ [Connect, Statement SelectById, Statement UpdateRow, ClosePool]\<rparr>)"
    using h by (intro update_customer_found) simp_all
  moreover have "find (has_id cid)
      (map (\<lambda>r. if has_id cid r then merge_row current name email age pkg r else r) (db_rows d))
      = Some ?row"
    using h by (intro find_map_merge) simp
  moreover have "cust_id ?row = cust_id current"
    and "name = None \<longrightarrow> cust_name ?row = cust_name current"
    and "email = None \<longrightarrow> cust_email ?row = cust_email current"
    and "age = None \<longrightarrow> cust_age ?row = cust_age current"
    and "pkg = None \<longrightarrow> cust_pkg ?row = cust_pkg current"
    by (simp_all add: merge_row_def Let_def)
  ultimately show "\<exists>row d'. update_customer d cid name email age pkg = (Some (row_dict row), d')
          \<and> find (has_id cid) (db_rows d') = Some row
          \<and> db_events d' = db_events d @ [Connect, Statement SelectById, Statement UpdateRow, ClosePool]
          \<and> cust_id row = cust_id current
          \<and> (name = None \<longrightarrow> cust_name row = cust_name current)
          \<and> (email = None \<longrightarrow> cust_email row = cust_email current)
          \<and> (age = None \<longrightarrow> cust_age row = cust_age current)
          \<and> (pkg = None \<longrightarrow> cust_pkg row = cust_pkg current)"
    by simp
next
  assume "find (has_id cid) (db_rows d) = None"
  then show "fst (update_customer d cid name email age pkg) = None"
    by (rule update_customer_missing)
next
  assume "find (has_id cid) (db_rows d) = None"
  then show "db_rows (snd (update_customer d cid name email age pkg)) = db_rows d"
    by (rule update_customer_missing)
qed

theorem update_customer_keeps_unsupplied_witness:
  "(\<exists>row d'. update_customer sample_db 1 None (Some ''ann@example.org'') None (Some 3)
        = (Some (row_dict row), d')
      \<and> find (has_id 1) (db_rows d') = Some row
      \<and> db_events d' = [Connect, Statement SelectById, Statement UpdateRow, ClosePool]
      \<and> cust_id row = 1 \<and> cust_name row = ''Ann'' \<and> cust_age row = None)
   \<and> fst (update_customer sample_db 7 None (Some ''ann@example.org'') None (Some 3)) = None
   \<and> db_rows (snd (update_customer sample_db 7 None (Some ''ann@example.org'') None (Some 3)))
     = [sample_customer]"
  using
    update_customer_keeps_unsupplied [where d = sample_db and cid = 1 and current = sample_customer
      and name = None and email = "Some ''ann@example.org''" and age = None and pkg = "Some 3"]
    update_customer_keeps_unsupplied [where d = sample_db and cid = 7 and current = sample_customer
      and name = None and email = "Some ''ann@example.org''" and age = None and pkg = "Some 3"]
  by (simp add: sample_db_def sample_customer_def has_id_def)

lemma merge_row_same:
  assumes "name = None \<or> name = Some (cust_name current)"
    and "email = None \<or> email = Some (cust_email current)"
    and "age = None \<or> age = cust_age current"
    and "pkg = None \<or> pkg = cust_pkg current"
  shows "merge_row current name email age pkg current = current"
  using assms by (auto simp add: merge_row_def Let_def split: option.splits)

lemma no_dict_row: "\<not> no_dict (Some (row_dict r))"
  by (simp add: no_dict_def row_dict_def)

text \<open>
  C7. For every existing customer, on a reachable database whose SELECT and UPDATE do
  not raise, an invocation of \<open>update_customer\<close> that changes no field (each field is
  either not supplied or supplied with its current value) returns the record as it was
  before the update, and that record is still the one stored; when the same arguments
  pass the check of \<open>modify_customer\<close>, the tool renders that unchanged record.
\<close>

theorem update_without_change_is_identity:
  "db_reachable d \<and> SelectById \<notin> set (db_failing d) \<and> UpdateRow \<notin> set (db_failing d)
     \<and> find (has_id cid) (db_rows d) = Some current
     \<and> (name = None \<or> name = Some (cust_name current))
     \<and> (email = None \<or> email = Some (cust_email current))
     \<and> (age = None \<or> age = cust_age current)
     \<and> (pkg = None \<or> pkg = cust_pkg current)
   \<longrightarrow> fst (update_customer d cid name email age pkg) = Some (row_dict current)
       \<and> find (has_id cid) (db_rows (snd (update_customer d cid name email age pkg))) = Some current
       \<and> (py_any [truthy_str name, truthy_str email, truthy_int age, truthy_int pkg]
          \<longrightarrow> fst (modify_customer d cid name email age pkg)
              = customer_report ''Customer updated successfully:'' (row_dict current))"
proof (intro impI)
  assume h: "db_reachable d \<and> SelectById \<notin> set (db_failing d) \<and> UpdateRow \<notin> set (db_failing d)
     \<and> find (has_id cid) (db_rows d) = Some current
     \<and> (name = None \<or> name = Some (cust_name current))
     \<and> (email = None \<or> email = Some (cust_email current))
     \<and> (age = None \<or> age = cust_age current)
     \<and> (pkg = None \<or> pkg = cust_pkg current)"
  have same: "merge_row current name email age pkg current = current"
    using h by (intro merge_row_same) simp_all
  have upd: "update_customer d cid name email age pkg =
    (Some (row_dict current),
     d\<lparr>db_rows := map (\<lambda>r. if has_id cid r then merge_row current name email age pkg r else r)
                     (db_rows d),
        db_events := db_events d @ [Connect, Statement SelectById, Statement UpdateRow, ClosePool]\<rparr>)"
    using h update_customer_found [of d cid current name email age pkg] by (simp add: same)
  have stored: "find (has_id cid)
      (map (\<lambda>r. if has_id cid r then merge_row current name email age pkg r else r) (db_rows d))
      = Some current"
    using h find_map_merge [of cid "db_rows d" current name email age pkg] by (simp add: same)
  have tool: "py_any [truthy_str name, truthy_str email, truthy_int age, truthy_int pkg]
      \<longrightarrow> fst (modify_customer d cid name email age pkg)
          = customer_report ''Customer updated successfully:'' (row_dict current)"
    by (simp add: modify_customer_def upd no_dict_row)
  show "fst (update_customer d cid name email age pkg) = Some (row_dict current)
       \<and> find (has_id cid) (db_rows (snd (update_customer d cid name email age pkg))) = Some current
       \<and> (py_any [truthy_str name, truthy_str email, truthy_int age, truthy_int pkg]
          \<longrightarrow> fst (modify_customer d cid name email age pkg)
              = customer_report ''Customer updated successfully:'' (row_dict current))"
    using tool by (simp add: upd stored)
qed

theorem update_without_change_is_identity_witness:
  "fst (update_customer sample_db 1 None None None None) = Some (row_dict sample_customer)
   \<and> fst (update_customer sample_db 1 (Some ''Ann'') (Some ''ann@example.com'') None None)
     = Some (row_dict sample_customer)
   \<and> find (has_id 1)
       (db_rows (snd (update_customer sample_db 1 (Some ''Ann'') (Some ''ann@example.com'') None None)))
     = Some sample_customer
   \<and> fst (modify_customer sample_db 1 (Some ''Ann'') (Some ''ann@example.com'') None None)
     = customer_report ''Customer updated successfully:'' (row_dict sample_customer)"
  using
    update_without_change_is_identity [where d = sample_db and cid = 1 and current = sample_customer
      and name = None and email = None and age = None and pkg = None]
    update_without_change_is_identity [where d = sample_db and cid = 1 and current = sample_customer
      and name = "Some ''Ann''" and email = "Some ''ann@example.com''" and age = None and pkg = None]
  by (simp add: sample_db_def sample_customer_def has_id_def py_any_def truthy_str_def)

section \<open>Properties of the customer tools\<close>

text \<open>A field whose key is missing from the record is rendered with the default.\<close>

lemma missing_key_renders_default:
  "map_of customer key = None \<Longrightarrow> col_str (dict_get customer key (TextVal ''N/A'')) = ''N/A''"
  by (simp add: dict_get_def)

text \<open>
  A field whose key is present with the value \<^verbatim>\<open>None\<close>, which is what \<^verbatim>\<open>dict(row)\<close> holds
  for a NULL column, is rendered as the text \<^verbatim>\<open>None\<close>: the default is not used.
\<close>

lemma null_value_renders_None:
  "map_of customer key = Some Null \<Longrightarrow> col_str (dict_get customer key (TextVal ''N/A'')) = ''None''"
  by (simp add: dict_get_def)

text \<open>
  C2. The claim is that an optional field (age, preferred package) that is absent in
  a customer record is rendered as the text "N/A". The code does not do that for the
  records the adapter produces: the sample customer has neither age nor package, and
  \<open>get_customer\<close> and \<open>list_customers\<close> render both fields as "None"; the text "N/A"
  occurs nowhere in the result. The labels do come in the fixed order ID, Name, Email,
  Age, Prefer Package.
\<close>

theorem absent_fields_render_as_None:
  "fst (get_customer sample_db 1)
     = join_lines [[], ''Customer Details:'', ''ID: 1'', ''Name: Ann'', ''Email: ann@example.com'',
                   ''Age: None'', ''Prefer Package: None'', []]
   \<and> fst (list_customers sample_db)
     = join_lines [''Customers:'', [], ''ID: 1'', ''Name: Ann'', ''Email: ann@example.com'',
                   ''Age: None'', ''Prefer Package: None'', ''---'', []]
   \<and> str_contains ''N/A'' (fst (get_customer sample_db 1)) = False
   \<and> str_contains ''N/A'' (fst (list_customers sample_db)) = False"
  by code_simp

text \<open>
  C6. The claim is that an update request in which at least one optional field is
  supplied is forwarded to the adapter, also when the supplied value is the integer 0
  or the empty string. The code does not do that: for every database and identifier, a
  request that supplies only the age 0, only the empty name, or empty and zero values
  for all four fields, gets the missing-field error text, and the database is not
  touched.
\<close>

theorem modify_customer_rejects_zero_and_empty:
  "modify_customer d customer_id None None (Some 0) None
     = (''Error: At least one field (name, email, or phone) must be provided for update.'', d)
   \<and> modify_customer d customer_id (Some []) None None None
     = (''Error: At least one field (name, email, or phone) must be provided for update.'', d)
   \<and> modify_customer d customer_id (Some []) (Some []) (Some 0) (Some 0)
     = (''Error: At least one field (name, email, or phone) must be provided for update.'', d)"
  by (simp add: modify_customer_def py_any_def truthy_str_def truthy_int_def)

text \<open>A request with a truthy field is forwarded to the adapter as it is.\<close>

lemma modify_customer_forwards:
  "py_any [truthy_str name, truthy_str email, truthy_int age, truthy_int pkg] \<Longrightarrow>
   snd (modify_customer d customer_id name email age pkg)
     = snd (update_customer d customer_id name email age pkg)"
  by (simp add: modify_customer_def split: prod.splits option.splits)

lemma add_customer_stores:
  assumes "db_reachable d" and "InsertRow \<notin> set (db_failing d)"
  shows "add_customer d n e age pkg =
    (Some (row_dict \<lparr>cust_id = db_next_id d, cust_name = n, cust_email = e, cust_age = age,
                     cust_pkg = pkg\<rparr>),
     d\<lparr>db_rows := db_rows d @ [\<lparr>cust_id = db_next_id d, cust_name = n, cust_email = e,
                                cust_age = age, cust_pkg = pkg\<rparr>],
        db_next_id := db_next_id d + 1,
        db_events := db_events d @ [Connect, Statement InsertRow, ClosePool]\<rparr>)"
  using assms
  by (simp add: add_customer_def get_connection_pool_def add_customer_try_def execute_def
      record_event_def Let_def)

lemma create_customer_forwards:
  "n \<noteq> [] \<Longrightarrow> e \<noteq> [] \<Longrightarrow>
   snd (create_customer d (Some n) (Some e) age pkg) = snd (add_customer d n e age pkg)"
  by (simp add: create_customer_def not_str_def split: prod.splits option.splits)

text \<open>
  C10. For every create request in which the name or the email is absent or empty,
  \<open>create_customer\<close> returns the error text that states the requirement and leaves the
  database, the trace of requests made to it included, exactly as it was: no adapter is
  called. When both are non-empty, the database is left as \<open>add_customer\<close> with the
  same four arguments leaves it; on a reachable database whose INSERT does not raise,
  that is one connection, one INSERT and the release of the pool, and the new row holds
  age and preferred package as given, so \<open>None\<close> when they were not supplied.
\<close>

theorem create_customer_requires_name_and_email:
  "((name = None \<or> name = Some [] \<or> email = None \<or> email = Some [])
     \<longrightarrow> create_customer d name email age pkg
          = (''Error: Customer name and email are required.'', d))
   \<and> (name = Some n \<and> n \<noteq> [] \<and> email = Some e \<and> e \<noteq> []
     \<longrightarrow> snd (create_customer d name email age pkg) = snd (add_customer d n e age pkg)
        \<and> (db_reachable d \<and> InsertRow \<notin> set (db_failing d)
           \<longrightarrow> db_rows (snd (create_customer d name email age pkg))
               = db_rows d @ [\<lparr>cust_id = db_next_id d, cust_name = n, cust_email = e,
                                cust_age = age, cust_pkg = pkg\<rparr>]
             \<and> db_events (snd (create_customer d name email age pkg))
               = db_events d @ [Connect, Statement InsertRow, ClosePool]))"
proof (intro conjI impI)
  assume "name = None \<or> name = Some [] \<or> email = None \<or> email = Some []"
  then have "not_str name \<or> not_str email"
    by (auto simp add: not_str_def)
  then show "create_customer d name email age pkg
          = (''Error: Customer name and email are required.'', d)"
    by (simp add: create_customer_def)
next
  assume "name = Some n \<and> n \<noteq> [] \<and> email = Some e \<and> e \<noteq> []"
  then show "snd (create_customer d name email age pkg) = snd (add_customer d n e age pkg)"
    by (simp add: create_customer_forwards)
next
  assume a: "name = Some n \<and> n \<noteq> [] \<and> email = Some e \<and> e \<noteq> []"
    and b: "db_reachable d \<and> InsertRow \<notin> set (db_failing d)"
  then show "db_rows (snd (create_customer d name email age pkg))
               = db_rows d @ [\<lparr>cust_id = db_next_id d, cust_name = n, cust_email = e,
                                cust_age = age, cust_pkg = pkg\<rparr>]"
    by (simp add: create_customer_forwards add_customer_stores)
next
  assume a: "name = Some n \<and> n \<noteq> [] \<and> email = Some e \<and> e \<noteq> []"
    and b: "db_reachable d \<and> InsertRow \<notin> set (db_failing d)"
  then show "db_events (snd (create_customer d name email age pkg))
               = db_events d @ [Connect, Statement InsertRow, ClosePool]"
    by (simp add: create_customer_forwards add_customer_stores)
qed

theorem create_customer_requires_name_and_email_witness:
  "create_customer sample_db (Some []) (Some ''bob@example.com'') (Some 30) None
     = (''Error: Customer name and email are required.'', sample_db)
   \<and> create_customer sample_db (Some ''Bob'') None None None
     = (''Error: Customer name and email are required.'', sample_db)
   \<and> db_rows (snd (create_customer sample_db (Some ''Bob'') (Some ''bob@example.com'') None None))
     = [sample_customer,
        \<lparr>cust_id = 2, cust_name = ''Bob'', cust_email = ''bob@example.com'', cust_age = None,
         cust_pkg = None\<rparr>]
   \<and> db_events (snd (create_customer sample_db (Some ''Bob'') (Some ''bob@example.com'') None None))
     = [Connect, Statement InsertRow, ClosePool]"
  using
    create_customer_requires_name_and_email [where d = sample_db and name = "Some []"
      and email = "Some ''bob@example.com''" and age = "Some 30" and pkg = None
      and n = "[]" and e = "''bob@example.com''"]
    create_customer_requires_name_and_email [where d = sample_db and name = "Some ''Bob''"
      and email = None and age = None and pkg = None and n = "''Bob''" and e = "[]"]
    create_customer_requires_name_and_email [where d = sample_db and name = "Some ''Bob''"
      and email = "Some ''bob@example.com''" and age = None and pkg = None
      and n = "''Bob''" and e = "''bob@example.com''"]
  by (simp add: sample_db_def add_customer_def get_connection_pool_def add_customer_try_def
      execute_def record_event_def Let_def)

end
